theory Spec2Isabelle
  imports Main "HOL-Library.Word"
begin

section \<open>JavaScript strings\<close>

text \<open>
  A JavaScript string is a sequence of UTF-16 code units; \<open>length\<close>, indexing, \<open>slice\<close> and
  the regular expressions of the source (none has the \<open>u\<close> flag) all count code units.
  \<open>js\<close> embeds an ASCII literal.
\<close>

type_synonym code_unit = "16 word"
type_synonym jsstring = "code_unit list"

definition u :: "char \<Rightarrow> code_unit" where
  "u c = of_char c"

definition js :: "string \<Rightarrow> jsstring" where
  "js = map u"

text \<open>
  The class \<open>\s\<close> of an ECMAScript regular expression: WhiteSpace (TAB, VT, FF, SP, NBSP,
  ZWNBSP and the Unicode category Zs) and LineTerminator (LF, CR, LS, PS).
\<close>

definition isWhiteSpace :: "code_unit \<Rightarrow> bool" where
  "isWhiteSpace c =
     (c \<in> {0x9, 0xA, 0xB, 0xC, 0xD, 0x20, 0xA0, 0x1680, 0x2028, 0x2029, 0x202F, 0x205F,
            0x3000, 0xFEFF}
      \<or> (0x2000 \<le> c \<and> c \<le> 0x200A))"

text \<open>
  \<open>s.slice(start)\<close> and \<open>s.slice(start, end)\<close>: a negative index counts from the end, and
  every index is clamped into \<open>[0, s.length]\<close>.
\<close>

definition relIndex :: "nat \<Rightarrow> int \<Rightarrow> nat" where
  "relIndex n k = (if k < 0 then nat (max (int n + k) 0) else nat (min k (int n)))"

definition slice1 :: "'a list \<Rightarrow> int \<Rightarrow> 'a list" where
  "slice1 s start = drop (relIndex (length s) start) s"

definition slice2 :: "'a list \<Rightarrow> int \<Rightarrow> int \<Rightarrow> 'a list" where
  "slice2 s start end =
     (let from = relIndex (length s) start; to = relIndex (length s) end
      in take (to - from) (drop from s))"

text \<open>\<open>s[i]\<close>: \<open>undefined\<close> (here \<open>None\<close>) out of range.\<close>

definition charAt :: "'a list \<Rightarrow> nat \<Rightarrow> 'a option" where
  "charAt s i = (if i < length s then Some (s ! i) else None)"

text \<open>\<open>s.startsWith(p)\<close>.\<close>

definition startsWith :: "'a list \<Rightarrow> 'a list \<Rightarrow> bool" where
  "startsWith s p = (take (length p) s = p)"

text \<open>
  \<open>s.replace(pat, rep)\<close> with a string pattern: the first occurrence only (\<open>rep\<close> holds no
  \<open>$\<close> pattern in the source).
\<close>

fun replaceFirst :: "'a list \<Rightarrow> 'a list \<Rightarrow> 'a list \<Rightarrow> 'a list" where
  "replaceFirst pat rep [] = (if pat = [] then rep else [])"
| "replaceFirst pat rep (c # cs) =
     (if startsWith (c # cs) pat then rep @ drop (length pat) (c # cs)
      else c # replaceFirst pat rep cs)"

text \<open>
  A thrown value: an \<open>Error\<close> object with its \<open>message\<close>; another value that is neither
  \<open>null\<close> nor \<open>undefined\<close> and has no \<open>message\<close>; or \<open>null\<close> or \<open>undefined\<close>.
  \<open>readMessage\<close> is the template \<open>${error.message}\<close>: the message, the text \<open>undefined\<close>,
  or a \<open>TypeError\<close> thrown by the property access (its wording is the engine's).
\<close>

datatype exn = Error jsstring | OtherValue | Nullish

definition readMessage :: "exn \<Rightarrow> exn + jsstring" where
  "readMessage e =
     (case e of
        Error m \<Rightarrow> Inr m
      | OtherValue \<Rightarrow> Inr (js ''undefined'')
      | Nullish \<Rightarrow> Inl (Error (js ''Cannot read properties of null or undefined'')))"

section \<open>The popup session: \<open>NewPanePopupApp\<close>\<close>

text \<open>
  The component's \<open>useState\<close> cells. \<open>cursorPosition\<close> is the cursor that the component
  proposes to the text input; the effect that resets it to \<open>undefined\<close> on the next tick
  is left out, so the cell keeps the last proposal.
\<close>

record PopupState =
  prompt :: jsstring
  isFileListActive :: bool
  filteredFiles :: "jsstring list"
  selectedFileIndex :: int
  atPosition :: int
  cursorPosition :: "nat option"
  currentCursor :: nat

text \<open>
  \<open>scanProjectFiles\<close> and \<open>fuzzyMatchFiles\<close> live in \<open>utils/fileScanner\<close>, outside the
  file at hand: they are parameters. Either may throw. The scan root is a constant of the
  process, so the outcome of the scan is a value.
\<close>

record FileScanner =
  scanProjectFiles :: "exn + jsstring list"
  fuzzyMatchFiles :: "jsstring \<Rightarrow> jsstring list \<Rightarrow> exn + jsstring list"

text \<open>
  The backward loop \<open>for (let i = currentCursor - 1; i >= 0; i--)\<close>: the argument counts the
  indices still to visit, so \<open>Suc i\<close> visits index \<open>i\<close>. The result is \<open>atBeforeCursor\<close>.
\<close>

fun findAtBefore :: "jsstring \<Rightarrow> nat \<Rightarrow> int" where
  "findAtBefore p 0 = - 1"
| "findAtBefore p (Suc i) =
     (if charAt p i = Some (u CHR ''@'') then int i else findAtBefore p i)"

text \<open>The three setters that every hiding branch calls.\<close>

definition hideFileList :: "PopupState \<Rightarrow> PopupState" where
  "hideFileList s = s\<lparr>isFileListActive := False, filteredFiles := [], atPosition := - 1\<rparr>"

text \<open>
  The effect \<open>Detect @ and scan files\<close>, run when \<open>prompt\<close> or \<open>currentCursor\<close> changed.
  \<open>query\<close> is group 1 of \<open>/^([^\s]*)/\<close>, which always matches. The calls of \<open>debugLog\<close>
  (an append to a log file whose failure is ignored) touch no state and are left out.
\<close>

definition detectAt :: "FileScanner \<Rightarrow> PopupState \<Rightarrow> PopupState" where
  "detectAt fsn s =
     (let atBeforeCursor = findAtBefore (prompt s) (currentCursor s) in
      if atBeforeCursor \<noteq> - 1 then
        (let afterAt = slice1 (prompt s) (atBeforeCursor + 1);
             query = takeWhile (\<lambda>c. \<not> isWhiteSpace c) afterAt;
             endOfQuery = atBeforeCursor + 1 + int (length query) in
         if int (currentCursor s) \<ge> atBeforeCursor \<and> int (currentCursor s) \<le> endOfQuery then
           (let charAfterQuery = charAt afterAt (length query);
                spacePosition = atBeforeCursor + 1 + int (length query) in
            if charAfterQuery = Some (u CHR '' '') \<and> length query > 0
               \<and> int (currentCursor s) > spacePosition
            then hideFileList s
            else
              (case scanProjectFiles fsn of
                 Inl error \<Rightarrow> s\<lparr>filteredFiles := [], isFileListActive := False\<rparr>
               | Inr files \<Rightarrow>
                   (case fuzzyMatchFiles fsn query files of
                      Inl error \<Rightarrow> s\<lparr>filteredFiles := [], isFileListActive := False\<rparr>
                    | Inr matches \<Rightarrow>
                        s\<lparr>filteredFiles := matches, atPosition := atBeforeCursor,
                          isFileListActive := True, selectedFileIndex := 0\<rparr>)))
         else hideFileList s)
      else hideFileList s)"

text \<open>The \<open>key\<close> object of ink's \<open>useInput\<close>, with the flags the handler reads.\<close>

record Key =
  escape :: bool
  upArrow :: bool
  downArrow :: bool
  tab :: bool
  return :: bool

text \<open>
  The accept branch (Tab or Enter). \<open>filteredFiles[selectedFileIndex]\<close> at a negative index
  is \<open>undefined\<close>, which the concatenation prints as the text \<open>undefined\<close>.
  \<open>queryLength\<close> is the length of the match of \<open>/^@[^\s]*/\<close>, or 1 without a match.
\<close>

definition acceptFile :: "PopupState \<Rightarrow> PopupState" where
  "acceptFile s =
     (if length (filteredFiles s) > 0 \<and> selectedFileIndex s < int (length (filteredFiles s)) then
        (let selectedFile =
               (if 0 \<le> selectedFileIndex s then filteredFiles s ! nat (selectedFileIndex s)
                else js ''undefined'');
             beforeAt = slice2 (prompt s) 0 (atPosition s);
             afterAt = slice1 (prompt s) (atPosition s);
             queryLength =
               (if startsWith afterAt [u CHR ''@'']
                then 1 + length (takeWhile (\<lambda>c. \<not> isWhiteSpace c) (tl afterAt))
                else 1);
             afterQuery = slice1 (prompt s) (atPosition s + int queryLength);
             fileReference = u CHR ''@'' # selectedFile;
             newPrompt =
               beforeAt @ fileReference
               @ (if startsWith afterQuery [u CHR '' ''] then [] else [u CHR '' '']) @ afterQuery;
             newCursorPos = length beforeAt + length fileReference
         in s\<lparr>prompt := newPrompt, cursorPosition := Some newCursorPos,
              isFileListActive := False, filteredFiles := [], atPosition := - 1\<rparr>)
      else s)"

text \<open>The \<open>useInput\<close> handler of the component.\<close>

definition useInput :: "Key \<Rightarrow> PopupState \<Rightarrow> PopupState" where
  "useInput key s =
     (if escape key \<and> isFileListActive s then hideFileList s
      else if escape key \<and> length (prompt s) > 0 then s\<lparr>prompt := []\<rparr>
      else if \<not> isFileListActive s then s
      else if upArrow key then
        s\<lparr>selectedFileIndex := max 0 (selectedFileIndex s - 1)\<rparr>
      else if downArrow key then
        s\<lparr>selectedFileIndex :=
            min (int (length (filteredFiles s)) - 1) (selectedFileIndex s + 1)\<rparr>
      else if tab key \<or> return key then acceptFile s
      else s)"

definition shouldAllowCancel :: "PopupState \<Rightarrow> bool" where
  "shouldAllowCancel s =
     (if isFileListActive s then False
      else if length (prompt s) > 0 then False
      else True)"

text \<open>
  One key press as React runs it: the handler, then the text input reports its cursor
  (\<open>onCursorChange\<close>), then the detection effect if \<open>prompt\<close> or \<open>currentCursor\<close> changed.
\<close>

definition keyPress :: "FileScanner \<Rightarrow> Key \<Rightarrow> nat \<Rightarrow> PopupState \<Rightarrow> PopupState" where
  "keyPress fsn key cursor s =
     (let s' = (useInput key s)\<lparr>currentCursor := cursor\<rparr> in
      if prompt s' \<noteq> prompt s \<or> currentCursor s' \<noteq> currentCursor s then detectAt fsn s'
      else s')"

section \<open>The launcher: \<open>PopupManager\<close>\<close>

text \<open>
  Modelled from the spec: the type \<open>PopupResult<T>\<close>, declared in \<open>utils/popup\<close>. The
  channel holds one of \<open>{success: true, data: T}\<close>, \<open>{cancelled: true}\<close>,
  \<open>{error: string}\<close>; a field that is absent reads as \<open>undefined\<close>, here \<open>None\<close>.
\<close>

record 'a PopupResult =
  success :: "bool option"
  data :: "'a option"
  cancelled :: "bool option"
  error :: "jsstring option"

text \<open>Truthiness of an optional boolean and of an optional string.\<close>

definition truthy :: "bool option \<Rightarrow> bool" where
  "truthy b = (b = Some True)"

definition truthyStr :: "jsstring option \<Rightarrow> bool" where
  "truthyStr x = (case x of None \<Rightarrow> False | Some m \<Rightarrow> m \<noteq> [])"

text \<open>The fields of \<open>PopupManagerConfig\<close> that the methods below read.\<close>

record PopupManagerConfig =
  sidebarWidth :: int
  projectRoot :: jsstring
  popupsSupported :: bool
  terminalWidth :: int
  terminalHeight :: int

datatype layout = standard | centered | large

record PopupOptions =
  width :: "int option"
  height :: "int option"
  title :: jsstring
  positioning :: "layout option"

text \<open>
  \<open>POPUP_POSITIONING\<close> is declared in \<open>utils/popup\<close>: which of its three functions is
  called, and on what, is kept as a term.
\<close>

datatype placement =
    Large int int int
  | CenteredWithSidebar int
  | Standard int

text \<open>
  What the host can observe of a call: the calls of the two setters given to the
  constructor, the timers, the file operations and the spawn, in order.
\<close>

datatype event =
    SetStatusMessage jsstring
  | SetTimeout_SetStatusMessage jsstring nat
  | SetIgnoreInput bool
  | SetTimeout_SetIgnoreInput bool nat
  | WriteFile jsstring jsstring
  | Unlink jsstring
  | GetAllDimensions
  | LaunchNodePopupNonBlocking jsstring "jsstring list" placement PopupOptions

record Host =
  files :: "jsstring \<rightharpoonup> jsstring"
  trace :: "event list"

text \<open>
  What one call finds outside the file at hand: the clock, the outcome of each file
  operation, of the terminal query, of the spawn and of the awaited promise, what happens
  to the files while the popup is open, and the helpers of other modules.
  \<open>writeFile_throws\<close> gives the exception and what the failed write left at the path.
  \<open>Math.floor(terminalHeight * 0.8)\<close> is floating point and stays a parameter.
\<close>

record ('p, 'a) Env =
  getPopupScriptPath :: "jsstring \<Rightarrow> jsstring"
  Date_now :: nat
  JSON_stringify :: "'p \<Rightarrow> jsstring"
  writeFile_throws :: "(exn \<times> jsstring option) option"
  unlink_throws :: "exn option"
  getAllDimensions :: "exn + int \<times> int"
  launch_throws :: "exn option"
  resultPromise :: "exn + 'a PopupResult"
  popupFiles :: "(jsstring \<rightharpoonup> jsstring) \<Rightarrow> (jsstring \<rightharpoonup> jsstring)"
  path_basename :: "jsstring \<Rightarrow> jsstring"
  floor_times_0_8 :: "int \<Rightarrow> int"
  INPUT_IGNORE_DELAY :: nat

definition emit :: "event \<Rightarrow> Host \<Rightarrow> Host" where
  "emit e h = h\<lparr>trace := trace h @ [e]\<rparr>"

definition showTempMessage :: "jsstring \<Rightarrow> nat \<Rightarrow> Host \<Rightarrow> Host" where
  "showTempMessage message duration h =
     emit (SetTimeout_SetStatusMessage [] duration) (emit (SetStatusMessage message) h)"

definition checkPopupSupport :: "PopupManagerConfig \<Rightarrow> Host \<Rightarrow> bool \<times> Host" where
  "checkPopupSupport config h =
     (if \<not> popupsSupported config
      then (False, showTempMessage (js ''Popups require tmux 3.2+'') 3000 h)
      else (True, h))"

definition ignoreInputBriefly :: "('p, 'a) Env \<Rightarrow> Host \<Rightarrow> Host" where
  "ignoreInputBriefly env h =
     emit (SetTimeout_SetIgnoreInput False (INPUT_IGNORE_DELAY env)) (emit (SetIgnoreInput True) h)"

text \<open>\<open>fs.writeFile\<close> and \<open>fs.unlink\<close>; unlinking a path that does not exist throws.\<close>

definition fs_writeFile ::
  "('p, 'a) Env \<Rightarrow> jsstring \<Rightarrow> jsstring \<Rightarrow> Host \<Rightarrow> (exn + unit) \<times> Host" where
  "fs_writeFile env file content h =
     (let h1 = emit (WriteFile file content) h in
      case writeFile_throws env of
        None \<Rightarrow> (Inr (), h1\<lparr>files := (files h1)(file \<mapsto> content)\<rparr>)
      | Some (e, left) \<Rightarrow> (Inl e, h1\<lparr>files := (files h1)(file := left)\<rparr>))"

definition fs_unlink :: "('p, 'a) Env \<Rightarrow> jsstring \<Rightarrow> Host \<Rightarrow> (exn + unit) \<times> Host" where
  "fs_unlink env file h =
     (let h1 = emit (Unlink file) h in
      if files h1 file = None then (Inl (Error (js ''ENOENT: no such file or directory'')), h1)
      else
        (case unlink_throws env of
           Some e \<Rightarrow> (Inl e, h1)
         | None \<Rightarrow> (Inr (), h1\<lparr>files := (files h1)(file := None)\<rparr>)))"

text \<open>The decimal digits of a number, as a template literal prints \<open>Date.now()\<close>.\<close>

fun decimal :: "nat \<Rightarrow> jsstring" where
  "decimal n =
     (if n < 10 then [u CHR ''0'' + of_nat n]
      else decimal (n div 10) @ [u CHR ''0'' + of_nat (n mod 10)])"

declare decimal.simps [simp del]

definition tempFileName :: "jsstring \<Rightarrow> nat \<Rightarrow> jsstring" where
  "tempFileName scriptName now =
     js ''/tmp/dmux-'' @ replaceFirst (js ''.js'') [] scriptName @ js ''-'' @ decimal now
     @ js ''.json''"

text \<open>
  \<open>if (tempFile) { try { await fs.unlink(tempFile) } catch { } }\<close>, which both the end of
  the \<open>try\<close> block and the \<open>catch\<close> clause of \<open>launchPopup\<close> hold.
\<close>

definition cleanupTempFile :: "('p, 'a) Env \<Rightarrow> jsstring option \<Rightarrow> Host \<Rightarrow> Host" where
  "cleanupTempFile env tempFile h =
     (case tempFile of
        None \<Rightarrow> h
      | Some file \<Rightarrow>
          (if file = [] then h
           else (case fs_unlink env file h of (Inl e, h') \<Rightarrow> h' | (Inr x, h') \<Rightarrow> h')))"

text \<open>
  The steps of the \<open>try\<close> block of \<open>launchPopup\<close>. Each returns the exception or its value,
  and the host; the first also returns the local \<open>tempFile\<close>, which the \<open>catch\<close> clause
  reads.
\<close>

definition writeTempData ::
  "('p, 'a) Env \<Rightarrow> jsstring \<Rightarrow> jsstring list \<Rightarrow> 'p option \<Rightarrow> Host
     \<Rightarrow> (exn + jsstring list) \<times> jsstring option \<times> Host" where
  "writeTempData env scriptName args tempData h =
     (case tempData of
        None \<Rightarrow> (Inr args, None, h)
      | Some d \<Rightarrow>
          (let tempFile = tempFileName scriptName (Date_now env) in
           case fs_writeFile env tempFile (JSON_stringify env d) h of
             (Inl e, h1) \<Rightarrow> (Inl e, Some tempFile, h1)
           | (Inr x, h1) \<Rightarrow> (Inr (tempFile # args), Some tempFile, h1)))"

definition getPositioning ::
  "PopupManagerConfig \<Rightarrow> ('p, 'a) Env \<Rightarrow> PopupOptions \<Rightarrow> Host \<Rightarrow> (exn + placement) \<times> Host" where
  "getPositioning config env options h =
     (if positioning options = Some large then
        (let h1 = emit GetAllDimensions h in
         case getAllDimensions env of
           Inl e \<Rightarrow> (Inl e, h1)
         | Inr (clientWidth, clientHeight) \<Rightarrow>
             (Inr (Large (sidebarWidth config) clientWidth clientHeight), h1))
      else if positioning options = Some centered then
        (Inr (CenteredWithSidebar (sidebarWidth config)), h)
      else (Inr (Standard (sidebarWidth config)), h))"

definition launchAndAwait ::
  "('p, 'a) Env \<Rightarrow> jsstring \<Rightarrow> jsstring list \<Rightarrow> placement \<Rightarrow> PopupOptions \<Rightarrow> Host
     \<Rightarrow> (exn + 'a PopupResult) \<times> Host" where
  "launchAndAwait env popupScriptPath args pos options h =
     (let h1 = emit (LaunchNodePopupNonBlocking popupScriptPath args pos options) h in
      case launch_throws env of
        Some e \<Rightarrow> (Inl e, h1)
      | None \<Rightarrow>
          (let h2 = h1\<lparr>files := popupFiles env (files h1)\<rparr> in
           case resultPromise env of
             Inl e \<Rightarrow> (Inl e, h2)
           | Inr result \<Rightarrow> (Inr result, h2)))"

definition launchPopup_try ::
  "PopupManagerConfig \<Rightarrow> ('p, 'a) Env \<Rightarrow> jsstring \<Rightarrow> jsstring list \<Rightarrow> PopupOptions
     \<Rightarrow> 'p option \<Rightarrow> Host \<Rightarrow> (exn + 'a PopupResult) \<times> jsstring option \<times> Host" where
  "launchPopup_try config env scriptName args options tempData h =
     (let popupScriptPath = getPopupScriptPath env scriptName in
      case writeTempData env scriptName args tempData h of
        (Inl e, tempFile, h1) \<Rightarrow> (Inl e, tempFile, h1)
      | (Inr args', tempFile, h1) \<Rightarrow>
          (case getPositioning config env options h1 of
             (Inl e, h2) \<Rightarrow> (Inl e, tempFile, h2)
           | (Inr pos, h2) \<Rightarrow>
               (case launchAndAwait env popupScriptPath args' pos options h2 of
                  (Inl e, h3) \<Rightarrow> (Inl e, tempFile, h3)
                | (Inr result, h3) \<Rightarrow> (Inr result, tempFile, cleanupTempFile env tempFile h3))))"

text \<open>\<open>launchPopup\<close>: \<open>Inl\<close> is the exception it throws, \<open>Inr\<close> the result it returns.\<close>

definition launchPopup ::
  "PopupManagerConfig \<Rightarrow> ('p, 'a) Env \<Rightarrow> jsstring \<Rightarrow> jsstring list \<Rightarrow> PopupOptions
     \<Rightarrow> 'p option \<Rightarrow> Host \<Rightarrow> (exn + 'a PopupResult) \<times> Host" where
  "launchPopup config env scriptName args options tempData h =
     (case launchPopup_try config env scriptName args options tempData h of
        (Inr result, tempFile, h') \<Rightarrow> (Inr result, h')
      | (Inl e, tempFile, h') \<Rightarrow> (Inl e, cleanupTempFile env tempFile h'))"

text \<open>
  \<open>handleResult\<close>. A callback is a function on the host; \<open>onSuccess\<close> also returns its
  projection. \<open>null\<close> is \<open>None\<close>.
\<close>

definition handleResult ::
  "'a PopupResult \<Rightarrow> ('a \<Rightarrow> Host \<Rightarrow> 'a option \<times> Host) option \<Rightarrow> (jsstring \<Rightarrow> Host \<Rightarrow> Host) option
     \<Rightarrow> Host \<Rightarrow> 'a option \<times> Host" where
  "handleResult result onSuccess onError h =
     (if truthy (success result) \<and> data result \<noteq> None then
        (case onSuccess of
           Some f \<Rightarrow> (case data result of Some d \<Rightarrow> f d h | None \<Rightarrow> (None, h))
         | None \<Rightarrow> (data result, h))
      else if truthy (cancelled result) then (None, h)
      else if truthyStr (error result) then
        (let errorMsg = js ''Popup error: '' @ (case error result of Some m \<Rightarrow> m | None \<Rightarrow> [])
         in case onError of
              Some f \<Rightarrow> (None, f errorMsg h)
            | None \<Rightarrow> (None, showTempMessage errorMsg 3000 h))
      else (None, h))"

text \<open>
  \<open>launchNewPanePopup\<close>: \<open>Inr\<close> is what it returns (\<open>None\<close> is \<open>null\<close>), \<open>Inl\<close> the exception
  that leaves its \<open>catch\<close> clause when the caught value has no readable \<open>message\<close>.
\<close>

definition launchNewPanePopup ::
  "PopupManagerConfig \<Rightarrow> ('p, jsstring) Env \<Rightarrow> jsstring option \<Rightarrow> Host
     \<Rightarrow> (exn + jsstring option) \<times> Host" where
  "launchNewPanePopup config env projectPath h =
     (case checkPopupSupport config h of
        (False, h0) \<Rightarrow> (Inr None, h0)
      | (True, h0) \<Rightarrow>
          (let popupHeight = floor_times_0_8 env (terminalHeight config);
               popupArgs = (case projectPath of Some p \<Rightarrow> if p \<noteq> [] then [p] else [] | None \<Rightarrow> []);
               effectivePath =
                 (case projectPath of
                    Some p \<Rightarrow> if p \<noteq> [] then p else projectRoot config
                  | None \<Rightarrow> projectRoot config);
               projectName =
                 (if effectivePath \<noteq> [] then path_basename env effectivePath else js ''dmux'')
           in case launchPopup config env (js ''newPanePopup.js'') popupArgs
                  \<lparr>width = Some 90, height = Some popupHeight,
                   title = js ''  '' @ [0x2728] @ js '' New Pane '' @ [0x2014] @ js '' ''
                           @ projectName @ js ''  '',
                   positioning = Some centered\<rparr>
                  None h0 of
                (Inr result, h1) \<Rightarrow>
                  (case handleResult result None None (ignoreInputBriefly env h1) of
                     (r, h2) \<Rightarrow> (Inr r, h2))
              | (Inl e, h1) \<Rightarrow>
                  (case readMessage e of
                     Inl typeError \<Rightarrow> (Inl typeError, h1)
                   | Inr message \<Rightarrow>
                       (Inr None,
                        showTempMessage (js ''Failed to launch popup: '' @ message) 3000 h1))))"

section \<open>The statements of the specification\<close>

text \<open>
  Mention detection as the specification words it: the anchor is the nearest \<open>@\<close> at an
  index below the cursor, the query the maximal run of non-whitespace after it, and the
  mention is live when the cursor is not beyond the end of the query.
\<close>

definition spec_anchorIndex :: "jsstring \<Rightarrow> nat \<Rightarrow> nat option" where
  "spec_anchorIndex text cursorIndex =
     (case filter (\<lambda>i. charAt text i = Some (u CHR ''@'')) (rev [0 ..< cursorIndex]) of
        [] \<Rightarrow> None
      | i # rest \<Rightarrow> Some i)"

definition spec_query :: "jsstring \<Rightarrow> nat \<Rightarrow> jsstring" where
  "spec_query text anchorIndex = takeWhile (\<lambda>c. \<not> isWhiteSpace c) (drop (anchorIndex + 1) text)"

definition spec_endOfQuery :: "jsstring \<Rightarrow> nat \<Rightarrow> nat" where
  "spec_endOfQuery text anchorIndex = anchorIndex + 1 + length (spec_query text anchorIndex)"

definition spec_active :: "jsstring \<Rightarrow> nat \<Rightarrow> bool" where
  "spec_active text cursorIndex =
     (case spec_anchorIndex text cursorIndex of
        None \<Rightarrow> False
      | Some anchorIndex \<Rightarrow> cursorIndex \<le> spec_endOfQuery text anchorIndex)"

text \<open>
  The insertion as the specification words it: the new text and the new cursor index.
  \<open>separated\<close> tells which first characters of the rest need no separator.
\<close>

definition spec_insertion ::
  "(code_unit \<Rightarrow> bool) \<Rightarrow> jsstring \<Rightarrow> nat \<Rightarrow> jsstring \<Rightarrow> jsstring \<times> nat" where
  "spec_insertion separated text anchorIndex candidate =
     (let before = take anchorIndex text;
          run = (if charAt text anchorIndex = Some (u CHR ''@'')
                 then 1 + length (spec_query text anchorIndex) else 1);
          rest = drop (anchorIndex + run) text;
          separator = (case rest of [] \<Rightarrow> [u CHR '' ''] | c # cs \<Rightarrow> if separated c then [] else [u CHR '' ''])
      in (before @ [u CHR ''@''] @ candidate @ separator @ rest,
          length before + 1 + length candidate))"

text \<open>Single key presses, and a sequence of them handled in order.\<close>

definition noKey :: Key where
  "noKey = \<lparr>escape = False, upArrow = False, downArrow = False, tab = False, return = False\<rparr>"

definition escapeKey :: Key where
  "escapeKey = noKey\<lparr>escape := True\<rparr>"

definition upKey :: Key where
  "upKey = noKey\<lparr>upArrow := True\<rparr>"

definition downKey :: Key where
  "downKey = noKey\<lparr>downArrow := True\<rparr>"

definition tabKey :: Key where
  "tabKey = noKey\<lparr>tab := True\<rparr>"

definition returnKey :: Key where
  "returnKey = noKey\<lparr>return := True\<rparr>"

definition isArrow :: "Key \<Rightarrow> bool" where
  "isArrow key = (\<not> escape key \<and> (upArrow key \<or> downArrow key))"

fun useInputs :: "Key list \<Rightarrow> PopupState \<Rightarrow> PopupState" where
  "useInputs [] s = s"
| "useInputs (key # keys) s = useInputs keys (useInput key s)"

definition selectionInRange :: "PopupState \<Rightarrow> bool" where
  "selectionInRange s =
     (0 \<le> selectedFileIndex s \<and> selectedFileIndex s \<le> int (length (filteredFiles s)) - 1)"

text \<open>
  The exception that the \<open>try\<close> block of \<open>launchPopup\<close> meets first, step by step: the
  write of the payload, the terminal query of the large layout, the spawn, the awaited
  promise.
\<close>

definition firstException :: "('p, 'a) Env \<Rightarrow> PopupOptions \<Rightarrow> 'p option \<Rightarrow> exn option" where
  "firstException env options tempData =
     (case (tempData, writeFile_throws env) of
        (Some d, Some (e, left)) \<Rightarrow> Some e
      | _ \<Rightarrow>
          (case (positioning options = Some large, getAllDimensions env) of
             (True, Inl e) \<Rightarrow> Some e
           | _ \<Rightarrow>
               (case launch_throws env of
                  Some e \<Rightarrow> Some e
                | None \<Rightarrow> (case resultPromise env of Inl e \<Rightarrow> Some e | Inr r \<Rightarrow> None))))"

text \<open>Whether a call returned (rather than threw) the \<open>Error\<close> variant of the result.\<close>

definition returnsErrorVariant :: "exn + 'a PopupResult \<Rightarrow> bool" where
  "returnsErrorVariant out =
     (case out of Inl e \<Rightarrow> False | Inr result \<Rightarrow> truthyStr (error result))"

text \<open>
  What the selection and the anchor satisfy whenever the list is shown: the anchor is an
  index, and the selection is an index of the list unless the list is empty.
\<close>

definition mentionInv :: "PopupState \<Rightarrow> bool" where
  "mentionInv s =
     (\<not> isFileListActive s
      \<or> (0 \<le> atPosition s \<and> (filteredFiles s = [] \<or> selectionInRange s)))"

section \<open>Concrete inputs\<close>

text \<open>The initial values of the \<open>useState\<close> cells.\<close>

definition initialState :: PopupState where
  "initialState =
     \<lparr>prompt = [], isFileListActive = False, filteredFiles = [], selectedFileIndex = 0,
      atPosition = - 1, cursorPosition = None, currentCursor = 0\<rparr>"

text \<open>A project of two files, matched by prefix.\<close>

definition exampleScanner :: FileScanner where
  "exampleScanner =
     \<lparr>scanProjectFiles = Inr [js ''BUG.md'', js ''src/a.ts''],
      fuzzyMatchFiles = (\<lambda>query files. Inr (filter (\<lambda>f. take (length query) f = query) files))\<rparr>"

text \<open>A list of three candidates with the first selected, as detection leaves it.\<close>

definition exampleList :: PopupState where
  "exampleList =
     \<lparr>prompt = js ''fix @'', isFileListActive = True,
      filteredFiles = [js ''BUG.md'', js ''readme.md'', js ''src/a.ts''], selectedFileIndex = 0,
      atPosition = 4, cursorPosition = None, currentCursor = 5\<rparr>"

text \<open>A host with no file and no event yet, and a call in which nothing fails.\<close>

definition exampleHost :: Host where
  "exampleHost = \<lparr>files = Map.empty, trace = []\<rparr>"

definition exampleConfig :: PopupManagerConfig where
  "exampleConfig =
     \<lparr>sidebarWidth = 40, projectRoot = js ''/home/dev/app'', popupsSupported = True,
      terminalWidth = 200, terminalHeight = 50\<rparr>"

definition exampleEnv :: "(jsstring, jsstring) Env" where
  "exampleEnv =
     \<lparr>getPopupScriptPath = (\<lambda>scriptName. js ''/opt/dmux/dist/components/popups/'' @ scriptName),
      Date_now = 1700000000123,
      JSON_stringify = (\<lambda>d. d),
      writeFile_throws = None,
      unlink_throws = None,
      getAllDimensions = Inr (200, 50),
      launch_throws = None,
      resultPromise = Inr \<lparr>success = Some True, data = Some (js ''yes''), cancelled = None,
                           error = None\<rparr>,
      popupFiles = (\<lambda>fs. fs),
      path_basename = (\<lambda>p. rev (takeWhile (\<lambda>c. c \<noteq> u CHR ''/'') (rev p))),
      floor_times_0_8 = (\<lambda>h. h * 4 div 5),
      INPUT_IGNORE_DELAY = 100\<rparr>"

definition confirmOptions :: PopupOptions where
  "confirmOptions =
     \<lparr>width = Some 80, height = Some 12, title = js ''Confirm'', positioning = None\<rparr>"

section \<open>Facts about strings\<close>

lemma slice1_nonneg: "0 \<le> k \<Longrightarrow> slice1 s k = drop (nat k) s"
  by (cases "nat k \<le> length s") (auto simp: slice1_def relIndex_def min_def)

lemma slice2_from_0: "0 \<le> k \<Longrightarrow> slice2 s 0 k = take (nat k) s"
  by (auto simp: slice2_def relIndex_def min_def Let_def)

lemma startsWith_single: "startsWith s [c] = (case s of [] \<Rightarrow> False | x # xs \<Rightarrow> x = c)"
  by (cases s) (auto simp: startsWith_def)

lemma charAt_drop_hd: "charAt s i = (case drop i s of [] \<Rightarrow> None | x # xs \<Rightarrow> Some x)"
  by (auto simp: charAt_def hd_drop_conv_nth split: list.splits
      dest: hd_drop_conv_nth [symmetric])

lemma startsWith_at: "startsWith (drop a p) [c] = (charAt p a = Some c)"
  by (simp add: startsWith_single charAt_drop_hd split: list.splits)

lemma separator_startsWith:
  "(case r of [] \<Rightarrow> [x] | c # cs \<Rightarrow> if c = y then [] else [x])
   = (if startsWith r [y] then [] else [x])"
  by (cases r) (auto simp: startsWith_def)

section \<open>Mention detection\<close>

text \<open>The loop of the source finds the anchor of the specification.\<close>

lemma findAtBefore_spec:
  "findAtBefore p n = (case spec_anchorIndex p n of None \<Rightarrow> - 1 | Some i \<Rightarrow> int i)"
  by (induction n) (auto simp: spec_anchorIndex_def)

lemma findAtBefore_empty: "findAtBefore [] n = - 1"
  by (induction n) (auto simp: charAt_def)

lemma spec_anchorIndex_Some:
  assumes "spec_anchorIndex p n = Some a"
  shows "a < n \<and> charAt p a = Some (u CHR ''@'')"
proof -
  obtain r where r: "filter (\<lambda>i. charAt p i = Some (u CHR ''@'')) (rev [0 ..< n]) = a # r"
    using assms by (auto simp: spec_anchorIndex_def split: list.splits)
  have "a \<in> set (a # r)" by simp
  then have "a \<in> set (filter (\<lambda>i. charAt p i = Some (u CHR ''@'')) (rev [0 ..< n]))"
    by (simp only: r)
  then show ?thesis by simp
qed

text \<open>The anchor is the nearest one: no \<open>@\<close> lies between it and the cursor.\<close>

lemma spec_anchorIndex_nearest:
  "spec_anchorIndex p n = Some a \<Longrightarrow> a < j \<Longrightarrow> j < n \<Longrightarrow> charAt p j \<noteq> Some (u CHR ''@'')"
proof (induction n)
  case 0
  then show ?case by simp
next
  case (Suc n)
  show ?case
  proof (cases "charAt p n = Some (u CHR ''@'')")
    case True
    with Suc.prems show ?thesis by (simp add: spec_anchorIndex_def)
  next
    case False
    with Suc.prems have "spec_anchorIndex p n = Some a"
      by (simp add: spec_anchorIndex_def)
    with Suc.IH Suc.prems False show ?thesis
      by (cases "j = n") simp_all
  qed
qed

lemma detectAt_found:
  assumes scan: "scanProjectFiles fsn = Inr fl"
    and match: "fuzzyMatchFiles fsn = (\<lambda>query files. Inr (matches query files))"
    and anchor: "spec_anchorIndex (prompt s) (currentCursor s) = Some a"
  shows "detectAt fsn s =
           (if currentCursor s \<le> spec_endOfQuery (prompt s) a
            then s\<lparr>filteredFiles := matches (spec_query (prompt s) a) fl, atPosition := int a,
                   isFileListActive := True, selectedFileIndex := 0\<rparr>
            else hideFileList s)"
proof -
  have lt: "a < currentCursor s"
    using spec_anchorIndex_Some [OF anchor] by simp
  have f: "findAtBefore (prompt s) (currentCursor s) = int a"
    by (simp add: findAtBefore_spec anchor)
  have sl: "slice1 (prompt s) (int a + 1) = drop (a + 1) (prompt s)"
    by (simp add: slice1_nonneg nat_add_distrib)
  show ?thesis
    using lt
    by (simp add: detectAt_def f sl Let_def scan match spec_endOfQuery_def spec_query_def)
qed

lemma detectAt_not_found:
  assumes "spec_anchorIndex (prompt s) (currentCursor s) = None"
  shows "detectAt fsn s = hideFileList s"
  by (simp add: detectAt_def findAtBefore_spec assms)

text \<open>When the scan or the match throws, the list is hidden and empty.\<close>

lemma detectAt_scan_throws:
  "scanProjectFiles fsn = Inl e \<Longrightarrow>
   \<not> isFileListActive (detectAt fsn s) \<and> filteredFiles (detectAt fsn s) = []"
  by (simp add: detectAt_def Let_def hideFileList_def)

lemma detectAt_match_throws:
  "scanProjectFiles fsn = Inr fl \<Longrightarrow> fuzzyMatchFiles fsn = (\<lambda>query files. Inl e) \<Longrightarrow>
   \<not> isFileListActive (detectAt fsn s) \<and> filteredFiles (detectAt fsn s) = []"
  by (simp add: detectAt_def Let_def hideFileList_def)

text \<open>
  Claim C3. Detection scans backward from \<open>cursorIndex - 1\<close> for the nearest \<open>@\<close>. Provided
  the file scan and the match return (neither throws): if there is none the list is not
  active; otherwise, with \<open>query\<close> the maximal run of non-whitespace after the anchor, the
  list is active exactly when \<open>cursorIndex \<le> anchorIndex + 1 + query.length\<close>, and then the
  anchor is stored, the candidates are the matches of \<open>query\<close> and the selection is 0. In
  particular \<open>"fix @BU"\<close> with cursor 7 is active with anchor 4 and query \<open>"BU"\<close>;
  \<open>"fix @BUG.md rest"\<close> is not active with cursor 13 and is active with cursor 11.
\<close>

theorem mention_detection:
  assumes scan: "scanProjectFiles fsn = Inr fl"
    and match: "fuzzyMatchFiles fsn = (\<lambda>query files. Inr (matches query files))"
  shows
    "(spec_anchorIndex (prompt s) (currentCursor s) = None \<longrightarrow> \<not> isFileListActive (detectAt fsn s))
     \<and> (\<forall>anchorIndex. spec_anchorIndex (prompt s) (currentCursor s) = Some anchorIndex \<longrightarrow>
           isFileListActive (detectAt fsn s)
             = (currentCursor s \<le> anchorIndex + 1 + length (spec_query (prompt s) anchorIndex))
           \<and> (isFileListActive (detectAt fsn s) \<longrightarrow>
                atPosition (detectAt fsn s) = int anchorIndex
                \<and> filteredFiles (detectAt fsn s) = matches (spec_query (prompt s) anchorIndex) fl
                \<and> selectedFileIndex (detectAt fsn s) = 0))
     \<and> isFileListActive (detectAt fsn s) = spec_active (prompt s) (currentCursor s)
     \<and> isFileListActive (detectAt fsn (s\<lparr>prompt := js ''fix @BU'', currentCursor := 7\<rparr>))
     \<and> atPosition (detectAt fsn (s\<lparr>prompt := js ''fix @BU'', currentCursor := 7\<rparr>)) = 4
     \<and> filteredFiles (detectAt fsn (s\<lparr>prompt := js ''fix @BU'', currentCursor := 7\<rparr>))
         = matches (js ''BU'') fl
     \<and> \<not> isFileListActive
           (detectAt fsn (s\<lparr>prompt := js ''fix @BUG.md rest'', currentCursor := 13\<rparr>))
     \<and> isFileListActive
           (detectAt fsn (s\<lparr>prompt := js ''fix @BUG.md rest'', currentCursor := 11\<rparr>))"
proof -
  have none: "\<not> isFileListActive (detectAt fsn t)"
    if "spec_anchorIndex (prompt t) (currentCursor t) = None" for t
    using that by (simp add: detectAt_not_found hideFileList_def)
  have some: "detectAt fsn t =
           (if currentCursor t \<le> spec_endOfQuery (prompt t) a
            then t\<lparr>filteredFiles := matches (spec_query (prompt t) a) fl, atPosition := int a,
                   isFileListActive := True, selectedFileIndex := 0\<rparr>
            else hideFileList t)"
    if "spec_anchorIndex (prompt t) (currentCursor t) = Some a" for t a
    using that by (rule detectAt_found [OF scan match])
  have active: "isFileListActive (detectAt fsn t) = spec_active (prompt t) (currentCursor t)" for t
  proof (cases "spec_anchorIndex (prompt t) (currentCursor t)")
    case None
    then show ?thesis using none [OF None] by (simp add: spec_active_def)
  next
    case (Some a)
    then show ?thesis by (simp add: some [OF Some] spec_active_def hideFileList_def)
  qed
  have a1: "spec_anchorIndex (js ''fix @BU'') 7 = Some 4" by code_simp
  have q1: "spec_query (js ''fix @BU'') 4 = js ''BU''" by code_simp
  have e1: "spec_endOfQuery (js ''fix @BU'') 4 = 7" by code_simp
  have a2: "spec_anchorIndex (js ''fix @BUG.md rest'') 13 = Some 4" by code_simp
  have a3: "spec_anchorIndex (js ''fix @BUG.md rest'') 11 = Some 4" by code_simp
  have e2: "spec_endOfQuery (js ''fix @BUG.md rest'') 4 = 11" by code_simp
  show ?thesis
  proof (intro conjI allI impI)
    show "\<not> isFileListActive (detectAt fsn s)"
      if "spec_anchorIndex (prompt s) (currentCursor s) = None"
      using that by (rule none)
  next
    fix a assume a: "spec_anchorIndex (prompt s) (currentCursor s) = Some a"
    show "isFileListActive (detectAt fsn s)
          = (currentCursor s \<le> a + 1 + length (spec_query (prompt s) a))"
      by (simp add: some [OF a] spec_endOfQuery_def hideFileList_def)
    assume act: "isFileListActive (detectAt fsn s)"
    then have le: "currentCursor s \<le> spec_endOfQuery (prompt s) a"
      by (simp add: some [OF a] hideFileList_def split: if_splits)
    show "atPosition (detectAt fsn s) = int a"
      by (simp add: some [OF a] le)
    show "filteredFiles (detectAt fsn s) = matches (spec_query (prompt s) a) fl"
      by (simp add: some [OF a] le)
    show "selectedFileIndex (detectAt fsn s) = 0"
      by (simp add: some [OF a] le)
  next
    show "isFileListActive (detectAt fsn s) = spec_active (prompt s) (currentCursor s)"
      by (rule active)
  next
    show "isFileListActive (detectAt fsn (s\<lparr>prompt := js ''fix @BU'', currentCursor := 7\<rparr>))"
      by (simp add: some [of _ 4] a1 e1)
    show "atPosition (detectAt fsn (s\<lparr>prompt := js ''fix @BU'', currentCursor := 7\<rparr>)) = 4"
      by (simp add: some [of _ 4] a1 e1)
    show "filteredFiles (detectAt fsn (s\<lparr>prompt := js ''fix @BU'', currentCursor := 7\<rparr>))
           = matches (js ''BU'') fl"
      by (simp add: some [of _ 4] a1 e1 q1)
    show "\<not> isFileListActive
             (detectAt fsn (s\<lparr>prompt := js ''fix @BUG.md rest'', currentCursor := 13\<rparr>))"
      by (simp add: some [of _ 4] a2 e2 hideFileList_def)
    show "isFileListActive
            (detectAt fsn (s\<lparr>prompt := js ''fix @BUG.md rest'', currentCursor := 11\<rparr>))"
      by (simp add: some [of _ 4] a3 e2)
  qed
qed

text \<open>
  The hypotheses hold for the two-file project, where typing
  \<open>fix @BU\<close> from the initial state shows the one file that matches.
\<close>

theorem mention_detection_witness:
  "scanProjectFiles exampleScanner = Inr [js ''BUG.md'', js ''src/a.ts'']
   \<and> fuzzyMatchFiles exampleScanner
       = (\<lambda>query files. Inr (filter (\<lambda>f. take (length query) f = query) files))
   \<and> isFileListActive
       (detectAt exampleScanner (initialState\<lparr>prompt := js ''fix @BU'', currentCursor := 7\<rparr>))
   \<and> atPosition
       (detectAt exampleScanner (initialState\<lparr>prompt := js ''fix @BU'', currentCursor := 7\<rparr>)) = 4
   \<and> filteredFiles
       (detectAt exampleScanner (initialState\<lparr>prompt := js ''fix @BU'', currentCursor := 7\<rparr>))
       = [js ''BUG.md'']"
proof -
  have scan: "scanProjectFiles exampleScanner = Inr [js ''BUG.md'', js ''src/a.ts'']"
    by (simp add: exampleScanner_def)
  have match: "fuzzyMatchFiles exampleScanner
       = (\<lambda>query files. Inr (filter (\<lambda>f. take (length query) f = query) files))"
    by (simp add: exampleScanner_def)
  have m: "filter (\<lambda>f. take (length (js ''BU'')) f = js ''BU'') [js ''BUG.md'', js ''src/a.ts'']
           = [js ''BUG.md'']"
    by code_simp
  note d = mention_detection [OF scan match, of initialState]
  from d have act: "isFileListActive
       (detectAt exampleScanner (initialState\<lparr>prompt := js ''fix @BU'', currentCursor := 7\<rparr>))"
    by simp
  from d have at: "atPosition
       (detectAt exampleScanner (initialState\<lparr>prompt := js ''fix @BU'', currentCursor := 7\<rparr>)) = 4"
    by simp
  from d have "filteredFiles
       (detectAt exampleScanner (initialState\<lparr>prompt := js ''fix @BU'', currentCursor := 7\<rparr>))
       = filter (\<lambda>f. take (length (js ''BU'')) f = js ''BU'') [js ''BUG.md'', js ''src/a.ts'']"
    by simp
  then have ff: "filteredFiles
       (detectAt exampleScanner (initialState\<lparr>prompt := js ''fix @BU'', currentCursor := 7\<rparr>))
       = [js ''BUG.md'']"
    by (simp only: m)
  from scan match act at ff show ?thesis
    by (intro conjI)
qed

section \<open>Insertion\<close>

text \<open>
  Claim C4, amended. From the text \<open>"see @re"\<close> with the cursor at 7 and the one candidate
  \<open>"readme.md"\<close>, detection shows the list with selection 0 and anchor 4, and the accept
  gesture (Tab or Enter) gives the text \<open>"see @readme.md "\<close> with a trailing space and
  the new cursor index 14, the end of the inserted reference.
\<close>

theorem accept_example:
  "(let s0 = detectAt \<lparr>scanProjectFiles = Inr [js ''readme.md''],
                        fuzzyMatchFiles = (\<lambda>query files. Inr files)\<rparr>
               (initialState\<lparr>prompt := js ''see @re'', currentCursor := 7\<rparr>)
    in isFileListActive s0 \<and> filteredFiles s0 = [js ''readme.md''] \<and> selectedFileIndex s0 = 0
       \<and> atPosition s0 = 4
       \<and> prompt (useInput tabKey s0) = js ''see @readme.md ''
       \<and> cursorPosition (useInput tabKey s0) = Some 14
       \<and> prompt (useInput returnKey s0) = js ''see @readme.md ''
       \<and> cursorPosition (useInput returnKey s0) = Some 14)"
  by code_simp

text \<open>
  Claim C4 as stated fails: on that input the new cursor index is not 16 (the new text has
  15 characters).
\<close>

theorem accept_example_cursor_not_16:
  "cursorPosition
     (useInput tabKey
        \<lparr>prompt = js ''see @re'', isFileListActive = True, filteredFiles = [js ''readme.md''],
         selectedFileIndex = 0, atPosition = 4, cursorPosition = None, currentCursor = 7\<rparr>)
   \<noteq> Some 16"
  by code_simp

lemma acceptFile_spec:
  assumes cand: "filteredFiles s \<noteq> []"
    and sel: "0 \<le> selectedFileIndex s" "selectedFileIndex s < int (length (filteredFiles s))"
    and at: "0 \<le> atPosition s"
  shows "acceptFile s =
     s\<lparr>prompt := fst (spec_insertion (\<lambda>c. c = u CHR '' '') (prompt s) (nat (atPosition s))
                        (filteredFiles s ! nat (selectedFileIndex s))),
       cursorPosition :=
         Some (snd (spec_insertion (\<lambda>c. c = u CHR '' '') (prompt s) (nat (atPosition s))
                      (filteredFiles s ! nat (selectedFileIndex s)))),
       isFileListActive := False, filteredFiles := [], atPosition := - 1\<rparr>"
proof -
  define a where "a = nat (atPosition s)"
  have at': "atPosition s = int a" using at by (simp add: a_def)
  have tl: "tl (drop a (prompt s)) = drop (Suc a) (prompt s)"
    by (simp add: drop_Suc tl_drop)
  have s1: "slice1 (prompt s) (int a) = drop a (prompt s)"
    by (simp add: slice1_nonneg)
  have s1': "slice1 (prompt s) (int a + int k) = drop (a + k) (prompt s)" for k
    by (simp add: slice1_nonneg nat_add_distrib)
  have s2: "slice2 (prompt s) 0 (int a) = take a (prompt s)"
    by (simp add: slice2_from_0)
  show ?thesis
    unfolding acceptFile_def spec_insertion_def at' s1 s2 Let_def startsWith_at tl
      separator_startsWith spec_query_def
    using cand sel
    by (simp add: s1' a_def [symmetric] at' startsWith_at)
qed

text \<open>The detection effect changes neither the text nor the proposed cursor.\<close>

lemma detectAt_prompt: "prompt (detectAt fsn s) = prompt s"
  by (simp add: detectAt_def Let_def hideFileList_def split: sum.splits)

lemma detectAt_cursorPosition: "cursorPosition (detectAt fsn s) = cursorPosition s"
  by (simp add: detectAt_def Let_def hideFileList_def split: sum.splits)

lemma keyPress_prompt: "prompt (keyPress fsn key cursor s) = prompt (useInput key s)"
  by (simp add: keyPress_def Let_def detectAt_prompt)

lemma keyPress_cursorPosition:
  "cursorPosition (keyPress fsn key cursor s) = cursorPosition (useInput key s)"
  by (simp add: keyPress_def Let_def detectAt_cursorPosition)

text \<open>
  Claim C5, amended. When the list is active, the candidates are not empty, the selection
  is an index of the list and the anchor is an index, the accept gesture gives the text
  \<open>before + "@" + candidates[selectedIndex] + separator + rest\<close>, where \<open>before\<close> is the text
  up to the anchor, \<open>rest\<close> the text from the anchor without its \<open>@token\<close> run
  (\<open>1 + query.length\<close> characters, or 1 when the text has no \<open>@\<close> at the anchor), and
  \<open>separator\<close> is empty if \<open>rest\<close> begins with the space character U+0020 and a single
  space otherwise; the new cursor index is
  \<open>before.length + 1 + candidates[selectedIndex].length\<close>. Both hold of the handler and of
  the whole key press, whatever the detection that follows finds and wherever the input
  reports its cursor.
\<close>

theorem accept_insertion:
  assumes active: "isFileListActive s"
    and cand: "filteredFiles s \<noteq> []"
    and sel: "0 \<le> selectedFileIndex s" "selectedFileIndex s < int (length (filteredFiles s))"
    and at: "0 \<le> atPosition s"
    and key: "key = tabKey \<or> key = returnKey"
  shows "(let new = spec_insertion (\<lambda>c. c = u CHR '' '') (prompt s) (nat (atPosition s))
                     (filteredFiles s ! nat (selectedFileIndex s))
          in prompt (useInput key s) = fst new
             \<and> cursorPosition (useInput key s) = Some (snd new)
             \<and> prompt (keyPress fsn key cursor s) = fst new
             \<and> cursorPosition (keyPress fsn key cursor s) = Some (snd new))"
proof -
  have "useInput key s = acceptFile s"
    using active key by (auto simp: useInput_def tabKey_def returnKey_def noKey_def)
  then show ?thesis
    by (simp add: acceptFile_spec [OF cand sel at] Let_def keyPress_prompt
        keyPress_cursorPosition)
qed

text \<open>
  The hypotheses hold in the middle of \<open>"see @re now"\<close> with the second of two candidates
  selected; the space that follows the token is kept as the separator.
\<close>

theorem accept_insertion_witness:
  "(let s = \<lparr>prompt = js ''see @re now'', isFileListActive = True,
             filteredFiles = [js ''src/a.ts'', js ''readme.md''], selectedFileIndex = 1,
             atPosition = 4, cursorPosition = None, currentCursor = 6\<rparr>
    in isFileListActive s \<and> filteredFiles s \<noteq> [] \<and> 0 \<le> selectedFileIndex s
       \<and> selectedFileIndex s < int (length (filteredFiles s)) \<and> 0 \<le> atPosition s
       \<and> prompt (keyPress exampleScanner tabKey 14 s) = js ''see @readme.md now''
       \<and> cursorPosition (keyPress exampleScanner tabKey 14 s) = Some 14)"
proof -
  define s where "s = \<lparr>prompt = js ''see @re now'', isFileListActive = True,
             filteredFiles = [js ''src/a.ts'', js ''readme.md''], selectedFileIndex = 1,
             atPosition = 4, cursorPosition = None, currentCursor = 6\<rparr>"
  have h: "isFileListActive s" "filteredFiles s \<noteq> []" "0 \<le> selectedFileIndex s"
    "selectedFileIndex s < int (length (filteredFiles s))" "0 \<le> atPosition s"
    by (simp_all add: s_def)
  have n: "spec_insertion (\<lambda>c. c = u CHR '' '') (js ''see @re now'') 4 (js ''readme.md'')
           = (js ''see @readme.md now'', 14)"
    by code_simp
  have v: "prompt s = js ''see @re now''" "nat (atPosition s) = 4"
    "filteredFiles s ! nat (selectedFileIndex s) = js ''readme.md''"
    by (simp_all add: s_def)
  from accept_insertion [OF h disjI1 [OF refl], of exampleScanner 14]
  have "prompt (keyPress exampleScanner tabKey 14 s) = js ''see @readme.md now''
       \<and> cursorPosition (keyPress exampleScanner tabKey 14 s) = Some 14"
    by (simp add: Let_def v n)
  with h show ?thesis by (simp add: s_def [symmetric] Let_def)
qed

text \<open>
  Claim C5 as stated fails twice on the text \<open>"fix @BU\nnext"\<close> with the candidate
  \<open>"BUG.md"\<close>. The rest begins with a line feed, which is whitespace but not a space, and
  the source still inserts a space: the text differs from the one the claim gives. And the
  change of text runs the detection again, which at the proposed cursor 11 finds the
  cursor at the end of the inserted token: the list is active again, with a candidate.
\<close>

theorem accept_insertion_counterexample:
  "prompt
     (useInput tabKey
        \<lparr>prompt = js ''fix @BU'' @ [0xA] @ js ''next'', isFileListActive = True,
         filteredFiles = [js ''BUG.md''], selectedFileIndex = 0, atPosition = 4,
         cursorPosition = None, currentCursor = 7\<rparr>)
   \<noteq> fst (spec_insertion isWhiteSpace (js ''fix @BU'' @ [0xA] @ js ''next'') 4 (js ''BUG.md''))
   \<and> cursorPosition
       (keyPress exampleScanner tabKey 11
          \<lparr>prompt = js ''fix @BU'' @ [0xA] @ js ''next'', isFileListActive = True,
           filteredFiles = [js ''BUG.md''], selectedFileIndex = 0, atPosition = 4,
           cursorPosition = None, currentCursor = 7\<rparr>) = Some 11
   \<and> isFileListActive
       (keyPress exampleScanner tabKey 11
          \<lparr>prompt = js ''fix @BU'' @ [0xA] @ js ''next'', isFileListActive = True,
           filteredFiles = [js ''BUG.md''], selectedFileIndex = 0, atPosition = 4,
           cursorPosition = None, currentCursor = 7\<rparr>)
   \<and> filteredFiles
       (keyPress exampleScanner tabKey 11
          \<lparr>prompt = js ''fix @BU'' @ [0xA] @ js ''next'', isFileListActive = True,
           filteredFiles = [js ''BUG.md''], selectedFileIndex = 0, atPosition = 4,
           cursorPosition = None, currentCursor = 7\<rparr>) = [js ''BUG.md'']"
  by code_simp

text \<open>On that input the source gives \<open>"fix @BUG.md \nnext"\<close>.\<close>

lemma separator_example:
  "prompt
     (useInput tabKey
        \<lparr>prompt = js ''fix @BU'' @ [0xA] @ js ''next'', isFileListActive = True,
         filteredFiles = [js ''BUG.md''], selectedFileIndex = 0, atPosition = 4,
         cursorPosition = None, currentCursor = 7\<rparr>)
   = js ''fix @BUG.md '' @ [0xA] @ js ''next''"
  by code_simp

text \<open>
  The handler itself hides the list on acceptance; the detection that the new text
  triggers decides anew.
\<close>

lemma acceptFile_hides:
  "filteredFiles s \<noteq> [] \<Longrightarrow> selectedFileIndex s < int (length (filteredFiles s)) \<Longrightarrow>
   \<not> isFileListActive (acceptFile s) \<and> filteredFiles (acceptFile s) = []"
  by (simp add: acceptFile_def Let_def)

text \<open>
  Detection and every key press keep the anchor and the selection well formed: the
  states in which the accept gesture inserts are the states the session reaches.
\<close>

lemma mentionInv_detectAt: "mentionInv (detectAt fsn s)"
proof (cases "findAtBefore (prompt s) (currentCursor s) = - 1")
  case True
  then show ?thesis by (simp add: detectAt_def mentionInv_def hideFileList_def)
next
  case False
  then have "0 \<le> findAtBefore (prompt s) (currentCursor s)"
    by (simp add: findAtBefore_spec split: option.splits)
  then show ?thesis
    by (auto simp: detectAt_def mentionInv_def hideFileList_def Let_def selectionInRange_def
        split: sum.splits)
qed

lemma mentionInv_useInput: "mentionInv s \<Longrightarrow> mentionInv (useInput key s)"
  by (auto simp: useInput_def mentionInv_def hideFileList_def acceptFile_def Let_def
      selectionInRange_def)

lemma mentionInv_keyPress: "mentionInv s \<Longrightarrow> mentionInv (keyPress fsn key cursor s)"
  using mentionInv_useInput [of s key]
  by (simp add: keyPress_def Let_def mentionInv_detectAt) (simp add: mentionInv_def selectionInRange_def)

section \<open>Navigation\<close>

lemma arrow_step:
  assumes "isFileListActive s" "selectionInRange s" "isArrow key"
  shows "isFileListActive (useInput key s) \<and> selectionInRange (useInput key s)
         \<and> filteredFiles (useInput key s) = filteredFiles s"
  using assms by (auto simp: useInput_def isArrow_def selectionInRange_def)

lemma arrows_steps:
  "isFileListActive s \<Longrightarrow> selectionInRange s \<Longrightarrow> \<forall>key \<in> set keys. isArrow key \<Longrightarrow>
   isFileListActive (useInputs keys s) \<and> selectionInRange (useInputs keys s)
   \<and> filteredFiles (useInputs keys s) = filteredFiles s"
proof (induction keys arbitrary: s)
  case Nil
  then show ?case by simp
next
  case (Cons key keys)
  from Cons.prems
  have st: "isFileListActive (useInput key s) \<and> selectionInRange (useInput key s)
         \<and> filteredFiles (useInput key s) = filteredFiles s"
    by (intro arrow_step) simp_all
  with Cons.IH [of "useInput key s"] Cons.prems show ?case by simp
qed

lemma down_at_last:
  "isFileListActive s \<Longrightarrow> selectedFileIndex s = int (length (filteredFiles s)) - 1 \<Longrightarrow>
   useInput downKey s = s"
  by (simp add: useInput_def downKey_def noKey_def)

lemma up_at_first:
  "isFileListActive s \<Longrightarrow> selectedFileIndex s = 0 \<Longrightarrow> useInput upKey s = s"
  by (simp add: useInput_def upKey_def noKey_def)

lemma useInputs_replicate_fixed: "useInput key s = s \<Longrightarrow> useInputs (replicate n key) s = s"
  by (induction n) simp_all

lemma detectAt_selection:
  "isFileListActive (detectAt fsn t) \<Longrightarrow> filteredFiles (detectAt fsn t) \<noteq> [] \<Longrightarrow>
   selectionInRange (detectAt fsn t)"
  using mentionInv_detectAt [of fsn t] by (simp add: mentionInv_def)

text \<open>
  Claim C6, amended. While the list is active and holds at least one candidate, the
  selection never leaves \<open>[0, candidates.length - 1]\<close>: detection, which is what activates
  the list, puts it in that range, and from any active state with the selection in that
  range every sequence of up and down presses keeps it there (and keeps the list active,
  with the same candidates). Any number of down presses at the last index changes nothing,
  and any number of up presses at index 0 changes nothing.
\<close>

theorem navigation_in_range:
  assumes arrows: "\<forall>key \<in> set keys. isArrow key"
  shows "(isFileListActive (detectAt fsn t) \<and> filteredFiles (detectAt fsn t) \<noteq> [] \<longrightarrow>
            selectionInRange (detectAt fsn t)
            \<and> selectionInRange (useInputs keys (detectAt fsn t))
            \<and> isFileListActive (useInputs keys (detectAt fsn t))
            \<and> filteredFiles (useInputs keys (detectAt fsn t)) = filteredFiles (detectAt fsn t))
         \<and> (isFileListActive s \<and> selectionInRange s \<longrightarrow>
              selectionInRange (useInputs keys s)
              \<and> isFileListActive (useInputs keys s)
              \<and> filteredFiles (useInputs keys s) = filteredFiles s)
         \<and> (isFileListActive s \<and> selectedFileIndex s = int (length (filteredFiles s)) - 1 \<longrightarrow>
              useInputs (replicate n downKey) s = s)
         \<and> (isFileListActive s \<and> selectedFileIndex s = 0 \<longrightarrow>
              useInputs (replicate n upKey) s = s)"
proof (intro conjI impI)
  assume d: "isFileListActive (detectAt fsn t) \<and> filteredFiles (detectAt fsn t) \<noteq> []"
  then show r: "selectionInRange (detectAt fsn t)"
    by (simp add: detectAt_selection)
  from d have a: "isFileListActive (detectAt fsn t)" by simp
  from arrows_steps [OF a r arrows]
  show "selectionInRange (useInputs keys (detectAt fsn t))"
    and "isFileListActive (useInputs keys (detectAt fsn t))"
    and "filteredFiles (useInputs keys (detectAt fsn t)) = filteredFiles (detectAt fsn t)"
    by simp_all
next
  assume "isFileListActive s \<and> selectionInRange s"
  then have a: "isFileListActive s" and r: "selectionInRange s" by simp_all
  from arrows_steps [OF a r arrows]
  show "selectionInRange (useInputs keys s)"
    and "isFileListActive (useInputs keys s)"
    and "filteredFiles (useInputs keys s) = filteredFiles s"
    by simp_all
next
  assume "isFileListActive s \<and> selectedFileIndex s = int (length (filteredFiles s)) - 1"
  then show "useInputs (replicate n downKey) s = s"
    by (simp add: useInputs_replicate_fixed down_at_last)
next
  assume "isFileListActive s \<and> selectedFileIndex s = 0"
  then show "useInputs (replicate n upKey) s = s"
    by (simp add: useInputs_replicate_fixed up_at_first)
qed

text \<open>
  The hypotheses hold for the presses down, down, down, up, down: after typing \<open>fix @\<close> in
  the two-file project, where detection shows both files, and on the list of three
  candidates with the first selected, where five up presses change nothing.
\<close>

theorem navigation_in_range_witness:
  "isArrow downKey \<and> isArrow upKey
   \<and> isFileListActive
       (detectAt exampleScanner (initialState\<lparr>prompt := js ''fix @'', currentCursor := 5\<rparr>))
   \<and> filteredFiles
       (detectAt exampleScanner (initialState\<lparr>prompt := js ''fix @'', currentCursor := 5\<rparr>))
       \<noteq> []
   \<and> selectionInRange
       (useInputs [downKey, downKey, downKey, upKey, downKey]
          (detectAt exampleScanner (initialState\<lparr>prompt := js ''fix @'', currentCursor := 5\<rparr>)))
   \<and> isFileListActive exampleList \<and> selectionInRange exampleList
   \<and> selectedFileIndex exampleList = 0
   \<and> selectionInRange (useInputs [downKey, downKey, downKey, upKey, downKey] exampleList)
   \<and> useInputs (replicate 5 upKey) exampleList = exampleList"
proof -
  have k: "\<forall>key \<in> set [downKey, downKey, downKey, upKey, downKey]. isArrow key"
    by (simp add: isArrow_def downKey_def upKey_def noKey_def)
  have k': "isArrow downKey \<and> isArrow upKey"
    by (simp add: isArrow_def downKey_def upKey_def noKey_def)
  have d: "isFileListActive
       (detectAt exampleScanner (initialState\<lparr>prompt := js ''fix @'', currentCursor := 5\<rparr>))
     \<and> filteredFiles
       (detectAt exampleScanner (initialState\<lparr>prompt := js ''fix @'', currentCursor := 5\<rparr>))
       \<noteq> []"
    by code_simp
  have a: "isFileListActive exampleList \<and> selectionInRange exampleList"
    by (simp add: exampleList_def selectionInRange_def)
  have z: "isFileListActive exampleList \<and> selectedFileIndex exampleList = 0"
    by (simp add: exampleList_def)
  from navigation_in_range [OF k, of exampleScanner
      "initialState\<lparr>prompt := js ''fix @'', currentCursor := 5\<rparr>" exampleList 5] k' d a z
  show ?thesis by blast
qed

text \<open>
  Claim C6 as stated fails when the list is active without a candidate: typing \<open>fix @zz\<close>
  in the two-file project activates the list with no match and selection 0, and one down
  press makes the selection \<open>-1\<close>.
\<close>

theorem navigation_counterexample:
  "isFileListActive
     (detectAt exampleScanner (initialState\<lparr>prompt := js ''fix @zz'', currentCursor := 7\<rparr>))
   \<and> filteredFiles
       (detectAt exampleScanner (initialState\<lparr>prompt := js ''fix @zz'', currentCursor := 7\<rparr>))
     = []
   \<and> selectedFileIndex
       (useInputs [downKey]
          (detectAt exampleScanner (initialState\<lparr>prompt := js ''fix @zz'', currentCursor := 7\<rparr>)))
     = - 1
   \<and> \<not> selectionInRange
         (useInputs [downKey]
            (detectAt exampleScanner
               (initialState\<lparr>prompt := js ''fix @zz'', currentCursor := 7\<rparr>)))"
  by code_simp

section \<open>Progressive cancel\<close>

text \<open>
  Claim C7. A cancel gesture may close the session exactly when the list is not active and
  the text is empty. Otherwise the escape key, in this order: with the list active, only
  hides the list (the text is unchanged); else with a non-empty text, only clears the
  text; else changes nothing. So from an active list over a non-empty text (the cursor
  staying where it is at the first press, and wherever the input puts it at the second),
  the first press is refused and hides the list, the second is refused and clears the
  text, and the third is allowed to close.
\<close>

theorem progressive_cancel:
  assumes esc: "escape key"
  shows "shouldAllowCancel s = (\<not> isFileListActive s \<and> prompt s = [])
    \<and> (isFileListActive s \<longrightarrow>
         useInput key s = s\<lparr>isFileListActive := False, filteredFiles := [], atPosition := - 1\<rparr>)
    \<and> (\<not> isFileListActive s \<and> prompt s \<noteq> [] \<longrightarrow> useInput key s = s\<lparr>prompt := []\<rparr>)
    \<and> (\<not> isFileListActive s \<and> prompt s = [] \<longrightarrow> useInput key s = s)
    \<and> (isFileListActive s \<and> prompt s \<noteq> [] \<longrightarrow>
         (let s1 = keyPress fsn key (currentCursor s) s;
              s2 = keyPress fsn key cursor s1
          in \<not> shouldAllowCancel s
             \<and> \<not> isFileListActive s1 \<and> prompt s1 = prompt s \<and> \<not> shouldAllowCancel s1
             \<and> \<not> isFileListActive s2 \<and> prompt s2 = [] \<and> shouldAllowCancel s2))"
proof (intro conjI impI)
  show "shouldAllowCancel s = (\<not> isFileListActive s \<and> prompt s = [])"
    by (simp add: shouldAllowCancel_def)
  show "useInput key s = s\<lparr>isFileListActive := False, filteredFiles := [], atPosition := - 1\<rparr>"
    if "isFileListActive s"
    using that esc by (simp add: useInput_def hideFileList_def)
  show "useInput key s = s\<lparr>prompt := []\<rparr>" if "\<not> isFileListActive s \<and> prompt s \<noteq> []"
    using that esc by (simp add: useInput_def)
  show "useInput key s = s" if "\<not> isFileListActive s \<and> prompt s = []"
    using that esc by (simp add: useInput_def)
  assume a: "isFileListActive s \<and> prompt s \<noteq> []"
  define s1 where "s1 = keyPress fsn key (currentCursor s) s"
  have s1: "s1 = s\<lparr>isFileListActive := False, filteredFiles := [], atPosition := - 1\<rparr>"
    using a esc by (simp add: s1_def keyPress_def useInput_def hideFileList_def Let_def)
  have d: "detectAt fsn t = hideFileList t" if "prompt t = []" for t
    using that by (simp add: detectAt_def findAtBefore_empty)
  have ne: "[] \<noteq> prompt s" using a by auto
  have s2: "keyPress fsn key cursor s1
            = hideFileList (s1\<lparr>prompt := [], currentCursor := cursor\<rparr>)"
    using a esc ne by (simp add: s1 keyPress_def useInput_def Let_def d)
  show "let s1 = keyPress fsn key (currentCursor s) s;
            s2 = keyPress fsn key cursor s1
        in \<not> shouldAllowCancel s
           \<and> \<not> isFileListActive s1 \<and> prompt s1 = prompt s \<and> \<not> shouldAllowCancel s1
           \<and> \<not> isFileListActive s2 \<and> prompt s2 = [] \<and> shouldAllowCancel s2"
    unfolding Let_def s1_def [symmetric] s2
    using a by (simp add: s1 shouldAllowCancel_def hideFileList_def)
qed

text \<open>
  The hypotheses hold for the escape key on the list of three candidates over the text
  \<open>"fix @"\<close>: the third press is the first that may close.
\<close>

theorem progressive_cancel_witness:
  "escape escapeKey \<and> isFileListActive exampleList \<and> prompt exampleList \<noteq> []
   \<and> \<not> shouldAllowCancel exampleList
   \<and> \<not> shouldAllowCancel (keyPress exampleScanner escapeKey 5 exampleList)
   \<and> shouldAllowCancel
       (keyPress exampleScanner escapeKey 0 (keyPress exampleScanner escapeKey 5 exampleList))"
proof -
  have e: "escape escapeKey"
    by (simp add: escapeKey_def noKey_def)
  have a: "isFileListActive exampleList \<and> prompt exampleList \<noteq> []"
    by (simp add: exampleList_def js_def)
  have c: "currentCursor exampleList = 5"
    by (simp add: exampleList_def)
  from progressive_cancel [OF e, of exampleList exampleScanner 0] a
  have "\<not> shouldAllowCancel exampleList
   \<and> \<not> shouldAllowCancel (keyPress exampleScanner escapeKey (currentCursor exampleList) exampleList)
   \<and> shouldAllowCancel
       (keyPress exampleScanner escapeKey 0
          (keyPress exampleScanner escapeKey (currentCursor exampleList) exampleList))"
    by (simp add: Let_def)
  with e a show ?thesis by (simp only: c) simp
qed

section \<open>The launcher\<close>

lemma tempFileName_nonempty: "tempFileName scriptName now \<noteq> []"
  by (simp add: tempFileName_def js_def)

lemma trace_cleanupTempFile:
  "file \<noteq> [] \<Longrightarrow> trace (cleanupTempFile env (Some file) h) = trace h @ [Unlink file]"
  by (simp add: cleanupTempFile_def fs_unlink_def emit_def Let_def split: option.splits)

lemma files_cleanupTempFile:
  "file \<noteq> [] \<Longrightarrow> unlink_throws env = None \<Longrightarrow>
   files (cleanupTempFile env (Some file) h) file = None"
  by (simp add: cleanupTempFile_def fs_unlink_def emit_def Let_def split: option.splits)

lemma cleanupTempFile_None: "cleanupTempFile env None h = h"
  by (simp add: cleanupTempFile_def)

lemmas launchPopup_unfold =
  launchPopup_def launchPopup_try_def writeTempData_def fs_writeFile_def getPositioning_def
  launchAndAwait_def emit_def Let_def

text \<open>
  What a call returns or throws is decided by the steps of the \<open>try\<close> block alone; the
  outcome of the deletion does not enter.
\<close>

lemma launchPopup_outcome:
  "fst (launchPopup config env scriptName args options tempData h)
   = (case firstException env options tempData of Some e \<Rightarrow> Inl e | None \<Rightarrow> resultPromise env)"
  by (cases tempData; cases "writeFile_throws env"; cases "getAllDimensions env";
      cases "launch_throws env"; cases "resultPromise env";
      cases "positioning options = Some large")
    (simp_all add: launchPopup_unfold firstException_def split: prod.split)

lemma launchPopup_unlink_once:
  "count_list (trace (snd (launchPopup config env scriptName args options (Some d) h)))
     (Unlink (tempFileName scriptName (Date_now env)))
   = count_list (trace h) (Unlink (tempFileName scriptName (Date_now env))) + 1"
  by (cases "writeFile_throws env"; cases "getAllDimensions env";
      cases "launch_throws env"; cases "resultPromise env";
      cases "positioning options = Some large")
    (simp_all add: launchPopup_unfold trace_cleanupTempFile tempFileName_nonempty
      split: prod.split)

lemma launchPopup_unlink_last:
  "last (trace (snd (launchPopup config env scriptName args options (Some d) h)))
   = Unlink (tempFileName scriptName (Date_now env))"
  by (cases "writeFile_throws env"; cases "getAllDimensions env";
      cases "launch_throws env"; cases "resultPromise env";
      cases "positioning options = Some large")
    (simp_all add: launchPopup_unfold trace_cleanupTempFile tempFileName_nonempty
      split: prod.split)

lemma launchPopup_file_gone:
  "unlink_throws env = None \<Longrightarrow>
   files (snd (launchPopup config env scriptName args options (Some d) h))
     (tempFileName scriptName (Date_now env)) = None"
  by (cases "writeFile_throws env"; cases "getAllDimensions env";
      cases "launch_throws env"; cases "resultPromise env";
      cases "positioning options = Some large")
    (simp_all add: launchPopup_unfold files_cleanupTempFile tempFileName_nonempty
      split: prod.split)

lemma firstException_unlink:
  "firstException (env\<lparr>unlink_throws := x\<rparr>) options tempData
   = firstException env options tempData"
  by (simp add: firstException_def split: option.split prod.split sum.split bool.split)

text \<open>A call without payload and without the large layout is the spawn and the wait.\<close>

lemma launchPopup_plain:
  "positioning options \<noteq> Some large \<Longrightarrow>
   launchPopup config env scriptName args options None h
   = (let h1 = emit (LaunchNodePopupNonBlocking (getPopupScriptPath env scriptName) args
                      (if positioning options = Some centered
                       then CenteredWithSidebar (sidebarWidth config)
                       else Standard (sidebarWidth config)) options) h
      in case launch_throws env of
           Some e \<Rightarrow> (Inl e, h1)
         | None \<Rightarrow> (resultPromise env, h1\<lparr>files := popupFiles env (files h1)\<rparr>))"
  by (cases "launch_throws env"; cases "resultPromise env")
    (simp_all add: launchPopup_unfold cleanupTempFile_None)

text \<open>
  Claim C1. For every call of \<open>launchPopup\<close> with a payload, whatever step throws or
  whatever result the promise resolves to: the deletion of the channel file is attempted
  exactly once, as the last thing the call does; if the deletion does not fail the file
  does not exist when the call completes; and what the call returns or throws is the
  first exception of its steps, else the awaited result, the same whether the deletion
  fails or not.
\<close>

theorem launchPopup_cleanup:
  "(let tempFile = tempFileName scriptName (Date_now env);
        out = fst (launchPopup config env scriptName args options (Some d) h);
        h' = snd (launchPopup config env scriptName args options (Some d) h)
    in count_list (trace h') (Unlink tempFile) = count_list (trace h) (Unlink tempFile) + 1
       \<and> last (trace h') = Unlink tempFile
       \<and> (unlink_throws env = None \<longrightarrow> files h' tempFile = None)
       \<and> out = (case firstException env options (Some d) of
                  Some e \<Rightarrow> Inl e
                | None \<Rightarrow> resultPromise env)
       \<and> fst (launchPopup config (env\<lparr>unlink_throws := x\<rparr>) scriptName args options (Some d) h)
           = out)"
  unfolding Let_def
  by (intro conjI impI launchPopup_unlink_once launchPopup_unlink_last launchPopup_file_gone)
    (simp_all add: launchPopup_outcome firstException_unlink split: option.split)

text \<open>
  In the call in which nothing fails the deletion succeeds: the file that the call wrote
  is gone afterwards, and the awaited result is returned.
\<close>

theorem launchPopup_cleanup_witness:
  "unlink_throws exampleEnv = None
   \<and> files (snd (launchPopup exampleConfig exampleEnv (js ''confirmPopup.js'') [] confirmOptions
                   (Some (js ''[1]'')) exampleHost))
       (tempFileName (js ''confirmPopup.js'') (Date_now exampleEnv)) = None
   \<and> fst (launchPopup exampleConfig exampleEnv (js ''confirmPopup.js'') [] confirmOptions
            (Some (js ''[1]'')) exampleHost)
     = resultPromise exampleEnv"
proof -
  have n: "unlink_throws exampleEnv = None"
    by (simp add: exampleEnv_def)
  have f: "firstException exampleEnv confirmOptions (Some (js ''[1]'')) = None"
    by (simp add: firstException_def exampleEnv_def confirmOptions_def)
  from launchPopup_cleanup [of "js ''confirmPopup.js''" exampleEnv exampleConfig "[]"
      confirmOptions "js ''[1]''" exampleHost None] n f
  show ?thesis by (simp add: Let_def)
qed

text \<open>
  Claim C9, amended. When a step of a launch throws (the write of the payload, the
  terminal query, the spawn or the awaited promise), \<open>launchPopup\<close> attempts the deletion
  of the channel file, if it made one, as its last action, and then throws the same
  exception again: it does not return the \<open>Error\<close> variant. \<open>launchNewPanePopup\<close>, when the
  spawn or the wait throws a value whose \<open>message\<close> can be read (any value but \<open>null\<close> and
  \<open>undefined\<close>), catches it, shows the transient message \<open>Failed to launch popup: \<close>
  followed by that message, and returns \<open>null\<close>.
\<close>

theorem launch_failure_rethrown:
  fixes env :: "('p, 'a) Env" and envN :: "('q, jsstring) Env"
  assumes thrown: "firstException env options tempData = Some e"
    and spawn: "launch_throws envN = Some e'
                \<or> (launch_throws envN = None \<and> resultPromise envN = Inl e')"
    and readable: "readMessage e' = Inr m"
    and supported: "popupsSupported config"
  shows "fst (launchPopup config env scriptName args options tempData h) = Inl e
     \<and> \<not> returnsErrorVariant (fst (launchPopup config env scriptName args options tempData h))
     \<and> (\<forall>d. tempData = Some d \<longrightarrow>
           last (trace (snd (launchPopup config env scriptName args options tempData h)))
             = Unlink (tempFileName scriptName (Date_now env))
           \<and> (unlink_throws env = None \<longrightarrow>
                files (snd (launchPopup config env scriptName args options tempData h))
                  (tempFileName scriptName (Date_now env)) = None))
     \<and> fst (launchNewPanePopup config envN projectPath h) = Inr None
     \<and> (\<exists>spawned. trace (snd (launchNewPanePopup config envN projectPath h))
           = trace h @ [spawned, SetStatusMessage (js ''Failed to launch popup: '' @ m),
                        SetTimeout_SetStatusMessage [] 3000])"
proof -
  have out: "fst (launchPopup config env scriptName args options tempData h) = Inl e"
    by (simp add: launchPopup_outcome thrown)
  show ?thesis
  proof (intro conjI allI impI)
    show "fst (launchPopup config env scriptName args options tempData h) = Inl e"
      by (rule out)
    show "\<not> returnsErrorVariant (fst (launchPopup config env scriptName args options tempData h))"
      by (simp add: out returnsErrorVariant_def)
    show "last (trace (snd (launchPopup config env scriptName args options tempData h)))
             = Unlink (tempFileName scriptName (Date_now env))" if "tempData = Some d" for d
      by (simp add: that launchPopup_unlink_last)
    show "files (snd (launchPopup config env scriptName args options tempData h))
                  (tempFileName scriptName (Date_now env)) = None"
      if "tempData = Some d" "unlink_throws env = None" for d
      by (simp add: that launchPopup_file_gone)
    show "fst (launchNewPanePopup config envN projectPath h) = Inr None"
      using supported spawn readable
      by (auto simp: launchNewPanePopup_def checkPopupSupport_def launchPopup_plain Let_def)
    show "\<exists>spawned. trace (snd (launchNewPanePopup config envN projectPath h))
           = trace h @ [spawned, SetStatusMessage (js ''Failed to launch popup: '' @ m),
                        SetTimeout_SetStatusMessage [] 3000]"
      using supported spawn readable
      by (auto simp: launchNewPanePopup_def checkPopupSupport_def launchPopup_plain Let_def
          showTempMessage_def emit_def)
  qed
qed

text \<open>
  The hypotheses hold when the spawn throws an \<open>Error\<close>: the confirm popup throws that
  exception after attempting the deletion, and the new-pane popup returns \<open>null\<close>.
\<close>

theorem launch_failure_rethrown_witness:
  "firstException (exampleEnv\<lparr>launch_throws := Some (Error (js ''spawn tmux ENOENT''))\<rparr>)
      confirmOptions (Some (js ''[1]'')) = Some (Error (js ''spawn tmux ENOENT''))
   \<and> launch_throws (exampleEnv\<lparr>launch_throws := Some (Error (js ''spawn tmux ENOENT''))\<rparr>)
      = Some (Error (js ''spawn tmux ENOENT''))
   \<and> readMessage (Error (js ''spawn tmux ENOENT'')) = Inr (js ''spawn tmux ENOENT'')
   \<and> popupsSupported exampleConfig
   \<and> fst (launchPopup exampleConfig
            (exampleEnv\<lparr>launch_throws := Some (Error (js ''spawn tmux ENOENT''))\<rparr>)
            (js ''confirmPopup.js'') [] confirmOptions (Some (js ''[1]'')) exampleHost)
     = Inl (Error (js ''spawn tmux ENOENT''))
   \<and> fst (launchNewPanePopup exampleConfig
            (exampleEnv\<lparr>launch_throws := Some (Error (js ''spawn tmux ENOENT''))\<rparr>)
            None exampleHost)
     = Inr None"
proof -
  define env where "env = exampleEnv\<lparr>launch_throws := Some (Error (js ''spawn tmux ENOENT''))\<rparr>"
  have f: "firstException env confirmOptions (Some (js ''[1]''))
           = Some (Error (js ''spawn tmux ENOENT''))"
    by (simp add: env_def firstException_def exampleEnv_def confirmOptions_def)
  have l: "launch_throws env = Some (Error (js ''spawn tmux ENOENT''))"
    by (simp add: env_def)
  have r: "readMessage (Error (js ''spawn tmux ENOENT'')) = Inr (js ''spawn tmux ENOENT'')"
    by (simp add: readMessage_def)
  have s: "popupsSupported exampleConfig"
    by (simp add: exampleConfig_def)
  from launch_failure_rethrown [OF f disjI1 [OF l] r s, of "js ''confirmPopup.js''" "[]"
      exampleHost None] f l r s
  show ?thesis unfolding env_def by blast
qed

text \<open>
  Claim C9 as stated fails: when the spawn throws, \<open>launchPopup\<close> does not return the
  \<open>Error\<close> variant, it throws; and \<open>launchNewPanePopup\<close> returns \<open>null\<close>.
\<close>

theorem launch_failure_counterexample:
  "\<not> returnsErrorVariant
       (fst (launchPopup exampleConfig
               (exampleEnv\<lparr>launch_throws := Some (Error (js ''spawn tmux ENOENT''))\<rparr>)
               (js ''confirmPopup.js'') [] confirmOptions (Some (js ''[1]'')) exampleHost))
   \<and> fst (launchPopup exampleConfig
            (exampleEnv\<lparr>launch_throws := Some (Error (js ''spawn tmux ENOENT''))\<rparr>)
            (js ''confirmPopup.js'') [] confirmOptions (Some (js ''[1]'')) exampleHost)
     = Inl (Error (js ''spawn tmux ENOENT''))
   \<and> fst (launchNewPanePopup exampleConfig
            (exampleEnv\<lparr>launch_throws := Some (Error (js ''spawn tmux ENOENT''))\<rparr>)
            None exampleHost)
     = Inr None"
proof -
  define env where "env = exampleEnv\<lparr>launch_throws := Some (Error (js ''spawn tmux ENOENT''))\<rparr>"
  have f: "firstException env confirmOptions (Some (js ''[1]''))
           = Some (Error (js ''spawn tmux ENOENT''))"
    by (simp add: env_def firstException_def exampleEnv_def confirmOptions_def)
  have out: "fst (launchPopup exampleConfig env (js ''confirmPopup.js'') [] confirmOptions
                   (Some (js ''[1]'')) exampleHost)
             = Inl (Error (js ''spawn tmux ENOENT''))"
    by (simp add: launchPopup_outcome f)
  have l: "launch_throws env = Some (Error (js ''spawn tmux ENOENT''))"
    by (simp add: env_def)
  have new: "fst (launchNewPanePopup exampleConfig env None exampleHost) = Inr None"
    by (simp add: launchNewPanePopup_def checkPopupSupport_def launchPopup_plain Let_def l
        exampleConfig_def readMessage_def)
  from out new show ?thesis
    unfolding env_def by (simp add: returnsErrorVariant_def)
qed

text \<open>
  A thrown \<open>null\<close> or \<open>undefined\<close> is the one value that the \<open>catch\<close> clause of
  \<open>launchNewPanePopup\<close> does not turn into a message: reading its \<open>message\<close> throws.
\<close>

lemma launchNewPanePopup_nullish:
  "popupsSupported config \<Longrightarrow> launch_throws env = Some Nullish \<Longrightarrow>
   fst (launchNewPanePopup config env projectPath h)
   = Inl (Error (js ''Cannot read properties of null or undefined''))"
  by (simp add: launchNewPanePopup_def checkPopupSupport_def launchPopup_plain Let_def
      readMessage_def)

section \<open>Channel-file names\<close>

lemma unat_digit:
  assumes "a < 10"
  shows "unat (u CHR ''0'' + (of_nat a :: code_unit)) = 48 + a"
proof -
  have "u CHR ''0'' + (of_nat a :: code_unit) = of_nat (48 + a)"
    by (simp add: u_def)
  then have "unat (u CHR ''0'' + (of_nat a :: code_unit)) = (48 + a) mod 2 ^ LENGTH(16)"
    by (simp only: unat_of_nat)
  with assms show ?thesis by simp
qed

lemma digit_inj:
  assumes "a < 10" "b < 10" "u CHR ''0'' + (of_nat a :: code_unit) = u CHR ''0'' + of_nat b"
  shows "a = b"
proof -
  from assms(3) have "unat (u CHR ''0'' + (of_nat a :: code_unit))
      = unat (u CHR ''0'' + (of_nat b :: code_unit))"
    by (rule arg_cong)
  with assms(1,2) show ?thesis by (simp add: unat_digit)
qed

lemma digit_not_minus: "a < 10 \<Longrightarrow> u CHR ''0'' + (of_nat a :: code_unit) \<noteq> u CHR ''-''"
proof
  assume a: "a < 10" and "u CHR ''0'' + (of_nat a :: code_unit) = u CHR ''-''"
  then have "unat (u CHR ''0'' + (of_nat a :: code_unit)) = unat (u CHR ''-'')"
    by simp
  moreover have "unat (u CHR ''-'') = 45" by (simp add: u_def)
  ultimately show False using a by (simp add: unat_digit)
qed

lemma decimal_nonempty: "decimal n \<noteq> []"
  by (subst decimal.simps) simp

lemma decimal_no_minus: "u CHR ''-'' \<notin> set (decimal n)"
proof (induction n rule: decimal.induct)
  case (1 n)
  show ?case
  proof (cases "n < 10")
    case True
    then show ?thesis using digit_not_minus [of n] by (subst decimal.simps) auto
  next
    case False
    then show ?thesis
      using 1 digit_not_minus [of "n mod 10"] by (subst decimal.simps) auto
  qed
qed

lemma decimal_inj: "decimal n = decimal m \<Longrightarrow> n = m"
proof (induction n arbitrary: m rule: decimal.induct)
  case (1 n)
  show ?case
  proof (cases "n < 10")
    case n: True
    show ?thesis
    proof (cases "m < 10")
      case True
      with n "1.prems" show ?thesis
        by (simp add: decimal.simps [of n] decimal.simps [of m] digit_inj)
    next
      case False
      with n "1.prems" decimal_nonempty [of "m div 10"] show ?thesis
        by (simp add: decimal.simps [of n] decimal.simps [of m])
    qed
  next
    case n: False
    show ?thesis
    proof (cases "m < 10")
      case True
      with n "1.prems" decimal_nonempty [of "n div 10"] show ?thesis
        by (simp add: decimal.simps [of n] decimal.simps [of m])
    next
      case False
      with n "1.prems" have eq: "decimal (n div 10) = decimal (m div 10)"
        and d: "u CHR ''0'' + (of_nat (n mod 10) :: code_unit) = u CHR ''0'' + of_nat (m mod 10)"
        by (simp_all add: decimal.simps [of n] decimal.simps [of m])
      from "1.IH" [OF n eq] have "n div 10 = m div 10" .
      moreover from d have "n mod 10 = m mod 10" by (intro digit_inj) simp_all
      ultimately show ?thesis by (metis div_mult_mod_eq)
    qed
  qed
qed

text \<open>The digits hold no hyphen, so the last hyphen of a name separates them off.\<close>

lemma split_at_last_minus:
  assumes "u CHR ''-'' \<notin> set n1" "u CHR ''-'' \<notin> set n2"
    and "s1 @ u CHR ''-'' # n1 = s2 @ u CHR ''-'' # n2"
  shows "s1 = s2 \<and> n1 = n2"
proof -
  from assms(3) have "rev (s1 @ u CHR ''-'' # n1) = rev (s2 @ u CHR ''-'' # n2)" by simp
  then have r: "rev n1 @ u CHR ''-'' # rev s1 = rev n2 @ u CHR ''-'' # rev s2" by simp
  have t: "takeWhile (\<lambda>c. c \<noteq> u CHR ''-'') (rev n @ u CHR ''-'' # x) = rev n"
    if "u CHR ''-'' \<notin> set n" for n x
    using that by (auto simp: takeWhile_tail)
  from r have "takeWhile (\<lambda>c. c \<noteq> u CHR ''-'') (rev n1 @ u CHR ''-'' # rev s1)
             = takeWhile (\<lambda>c. c \<noteq> u CHR ''-'') (rev n2 @ u CHR ''-'' # rev s2)" by simp
  then have "rev n1 = rev n2" by (simp only: t [OF assms(1)] t [OF assms(2)])
  then have n: "n1 = n2" by simp
  with assms(3) show ?thesis by simp
qed

text \<open>
  Claim C8, amended. Two launches that persist a payload get the same channel-file name
  exactly when their script names agree once the first \<open>.js\<close> is removed and their readings
  of \<open>Date.now()\<close> are equal. So the names of two launches differ whenever their
  millisecond readings differ, and two launches of one popup in the same millisecond share
  a name.
\<close>

theorem tempFileName_collision:
  "(tempFileName scriptName1 now1 = tempFileName scriptName2 now2)
   = (replaceFirst (js ''.js'') [] scriptName1 = replaceFirst (js ''.js'') [] scriptName2
      \<and> now1 = now2)"
proof
  assume "tempFileName scriptName1 now1 = tempFileName scriptName2 now2"
  then have "replaceFirst (js ''.js'') [] scriptName1 @ u CHR ''-'' # decimal now1
           = replaceFirst (js ''.js'') [] scriptName2 @ u CHR ''-'' # decimal now2"
    by (simp add: tempFileName_def js_def)
  from split_at_last_minus [OF decimal_no_minus decimal_no_minus this]
  show "replaceFirst (js ''.js'') [] scriptName1 = replaceFirst (js ''.js'') [] scriptName2
      \<and> now1 = now2"
    by (auto dest: decimal_inj)
next
  assume "replaceFirst (js ''.js'') [] scriptName1 = replaceFirst (js ''.js'') [] scriptName2
      \<and> now1 = now2"
  then show "tempFileName scriptName1 now1 = tempFileName scriptName2 now2"
    by (simp add: tempFileName_def)
qed

text \<open>
  Claim C8 as stated fails: two launches of the confirm popup that read the same
  millisecond write their payloads to the same file, and the second payload replaces the
  first.
\<close>

theorem tempFileName_collision_example:
  "fst (snd (writeTempData exampleEnv (js ''confirmPopup.js'') [] (Some (js ''[1]'')) exampleHost))
   = fst (snd (writeTempData exampleEnv (js ''confirmPopup.js'') [] (Some (js ''[2]''))
                (snd (snd (writeTempData exampleEnv (js ''confirmPopup.js'') []
                             (Some (js ''[1]'')) exampleHost)))))
   \<and> fst (snd (writeTempData exampleEnv (js ''confirmPopup.js'') [] (Some (js ''[1]'')) exampleHost))
     = Some (tempFileName (js ''confirmPopup.js'') 1700000000123)
   \<and> files (snd (snd (writeTempData exampleEnv (js ''confirmPopup.js'') [] (Some (js ''[2]''))
                (snd (snd (writeTempData exampleEnv (js ''confirmPopup.js'') []
                             (Some (js ''[1]'')) exampleHost))))))
       (tempFileName (js ''confirmPopup.js'') 1700000000123)
     = Some (js ''[2]'')"
  by (simp add: writeTempData_def fs_writeFile_def emit_def exampleEnv_def Let_def)

section \<open>The classification of results\<close>


text \<open>
  Claim C10. On a result with \<open>success: true\<close> whose \<open>data\<close> is \<open>undefined\<close> (and no other
  field), \<open>handleResult\<close> returns \<open>null\<close> and leaves the host as it was, whatever callbacks
  were given: the success projector does not run, the error callback does not run, no
  message is shown.
\<close>

theorem handleResult_success_without_data:
  "handleResult \<lparr>success = Some True, data = None, cancelled = None, error = None\<rparr>
     onSuccess onError h = (None, h)"
  by (simp add: handleResult_def truthy_def truthyStr_def)

end
